theory Spec2Isabelle
  imports Main
begin

section \<open>JavaScript values and the built-ins the server relies on\<close>

text \<open>
  The payload of a notification is whatever \<^verbatim>\<open>JSON.parse\<close> returns, typed
  \<^verbatim>\<open>any\<close> in the source. A value is one of the JSON shapes, or
  \<^verbatim>\<open>undefined\<close> (the value of a property that is not there). The number type is
  left open as \<open>'n\<close>: the server never computes with numbers, it only tests them
  for truthiness and prints them into a room name.
  An object is the list of its own properties, each key once, as \<^verbatim>\<open>JSON.parse\<close>
  builds it; a lookup takes the binding of the key.
\<close>

datatype 'n jsval =
    JUndefined
  | JNull
  | JBool bool
  | JNum 'n
  | JStr string
  | JArr "'n jsval list"
  | JObj "(string \<times> 'n jsval) list"

datatype js_error = SyntaxError | TypeError

text \<open>
  The built-ins of the JavaScript runtime that are not code of this repository are
  parameters of the model: \<open>JSON_parse\<close> (\<open>None\<close> when it throws a SyntaxError),
  the test whether a number is \<open>+0\<close> or \<open>-0\<close> (a parsed number is never NaN), and
  the string form of a number.
\<close>

record 'n js_runtime =
  JSON_parse :: "string \<Rightarrow> 'n jsval option"
  Number_isZero :: "'n \<Rightarrow> bool"
  Number_toString :: "'n \<Rightarrow> string"

text \<open>Truthiness, as tested by \<^verbatim>\<open>if (x)\<close> and \<^verbatim>\<open>x || y\<close>.\<close>

fun ToBoolean :: "'n js_runtime \<Rightarrow> 'n jsval \<Rightarrow> bool" where
  "ToBoolean rt JUndefined = False"
| "ToBoolean rt JNull = False"
| "ToBoolean rt (JBool b) = b"
| "ToBoolean rt (JNum n) = (\<not> Number_isZero rt n)"
| "ToBoolean rt (JStr s) = (s \<noteq> [])"
| "ToBoolean rt (JArr xs) = True"
| "ToBoolean rt (JObj kvs) = True"

text \<open>
  The string form of a value inside a template literal. An array is joined with commas,
  \<^verbatim>\<open>null\<close> and \<^verbatim>\<open>undefined\<close> elements giving the empty string. A plain
  object prints as \<^verbatim>\<open>[object Object]\<close>, unless it has an own property
  \<^verbatim>\<open>toString\<close>: a parsed value is never callable, the inherited
  \<^verbatim>\<open>valueOf\<close> returns the object itself, and the conversion throws a TypeError.
\<close>

fun ToString :: "'n js_runtime \<Rightarrow> 'n jsval \<Rightarrow> js_error + string"
  and join_elems :: "'n js_runtime \<Rightarrow> 'n jsval list \<Rightarrow> js_error + string"
  and elem_str :: "'n js_runtime \<Rightarrow> 'n jsval \<Rightarrow> js_error + string" where
  "ToString rt JUndefined = Inr ''undefined''"
| "ToString rt JNull = Inr ''null''"
| "ToString rt (JBool b) = Inr (if b then ''true'' else ''false'')"
| "ToString rt (JNum n) = Inr (Number_toString rt n)"
| "ToString rt (JStr s) = Inr s"
| "ToString rt (JArr xs) = join_elems rt xs"
| "ToString rt (JObj kvs) =
     (case map_of kvs ''toString'' of
        Some f \<Rightarrow> Inl TypeError
      | None \<Rightarrow> Inr ''[object Object]'')"
| "join_elems rt [] = Inr []"
| "join_elems rt [x] = elem_str rt x"
| "join_elems rt (x # y # ys) =
     (case elem_str rt x of
        Inl e \<Rightarrow> Inl e
      | Inr s \<Rightarrow>
          (case join_elems rt (y # ys) of
             Inl e \<Rightarrow> Inl e
           | Inr t \<Rightarrow> Inr (s @ '','' @ t)))"
| "elem_str rt JUndefined = Inr []"
| "elem_str rt JNull = Inr []"
| "elem_str rt (JBool b) = ToString rt (JBool b)"
| "elem_str rt (JNum n) = ToString rt (JNum n)"
| "elem_str rt (JStr s) = ToString rt (JStr s)"
| "elem_str rt (JArr xs) = ToString rt (JArr xs)"
| "elem_str rt (JObj kvs) = ToString rt (JObj kvs)"

text \<open>
  Reading one of the properties \<^verbatim>\<open>operation\<close>, \<^verbatim>\<open>table\<close>,
  \<^verbatim>\<open>data\<close> or \<^verbatim>\<open>conversionId\<close>, the only ones the server reads. No
  built-in prototype defines any of them, so on a string, a number, a boolean or an
  array the result is \<^verbatim>\<open>undefined\<close>, and on an object without the key too. On
  \<^verbatim>\<open>null\<close> and \<^verbatim>\<open>undefined\<close> the read throws a TypeError, as
  destructuring them does.
\<close>

fun get_prop :: "'n jsval \<Rightarrow> string \<Rightarrow> js_error + 'n jsval" where
  "get_prop JUndefined k = Inl TypeError"
| "get_prop JNull k = Inl TypeError"
| "get_prop (JObj kvs) k = (case map_of kvs k of Some v \<Rightarrow> Inr v | None \<Rightarrow> Inr JUndefined)"
| "get_prop v k = Inr JUndefined"

section \<open>The state of a RealtimeServer\<close>

text \<open>
  What the server sends through Socket.IO: \<^verbatim>\<open>io.to(room).emit(name, body)\<close>
  reaches the members of one room, \<^verbatim>\<open>io.emit(name, body)\<close> every connected
  socket.
\<close>

datatype target = Room string | AllSockets

record 'n emission =
  target :: target
  event_name :: string
  body :: "'n jsval"

text \<open>The lines the server writes to the console, one constructor per message.\<close>

datatype 'n console_line =
    LogConnected
  | LogReceived string "'n jsval"
  | ErrProcessing js_error
  | ErrClientError
  | ErrSetupFailed
  | LogUnknownChannel string
  | LogReconnecting
  | ErrReconnectFailed
  | LogShuttingDown
  | LogShutdownComplete
  | ErrShutdown

text \<open>
  A \<^verbatim>\<open>pg\<close> client object, as far as the server can tell: whether
  \<^verbatim>\<open>connect()\<close> has resolved, whether \<^verbatim>\<open>end()\<close> has resolved, the
  \<^verbatim>\<open>LISTEN\<close> queries that have resolved, and how many listeners the server has
  registered with \<^verbatim>\<open>on("notification", ...)\<close> and \<^verbatim>\<open>on("error", ...)\<close>.
\<close>

record pg_client =
  connected :: bool
  ended :: bool
  listening :: "string list"
  notification_listeners :: nat
  error_listeners :: nat

definition new_Client :: pg_client where
  "new_Client = \<lparr>connected = False, ended = False, listening = [],
     notification_listeners = 0, error_listeners = 0\<rparr>"

text \<open>
  An async method runs until its next \<^verbatim>\<open>await\<close> and is resumed when the awaited
  promise settles. A suspended call is recorded with the client object on which the
  awaited operation was invoked.
\<close>

datatype awaiting =
    SetupConnect nat
  | SetupListen string "string list" nat
  | ReconnectEnd nat
  | CloseEnd nat

datatype timer_cb = SetupCb | ReconnectCb

record 'n server =
  pgClient :: nat
  clients :: "pg_client list"
  tasks :: "awaiting list"
  timers :: "(nat \<times> timer_cb) list"
  emitted :: "'n emission list"
  console :: "'n console_line list"
  httpClosed :: bool

definition io_to_emit :: "string \<Rightarrow> string \<Rightarrow> 'n jsval \<Rightarrow> 'n server \<Rightarrow> 'n server" where
  "io_to_emit room name b st =
     st\<lparr>emitted := emitted st @ [\<lparr>target = Room room, event_name = name, body = b\<rparr>]\<rparr>"

definition io_emit :: "string \<Rightarrow> 'n jsval \<Rightarrow> 'n server \<Rightarrow> 'n server" where
  "io_emit name b st =
     st\<lparr>emitted := emitted st @ [\<lparr>target = AllSockets, event_name = name, body = b\<rparr>]\<rparr>"

definition console_out :: "'n console_line \<Rightarrow> 'n server \<Rightarrow> 'n server" where
  "console_out l st = st\<lparr>console := console st @ [l]\<rparr>"

section \<open>Routing a decoded notification\<close>

text \<open>
  A handler returns the state it leaves behind and the exception it threw, if any: what
  was emitted before a throw stays emitted.
\<close>

definition handleConversionMessageChange ::
  "'n js_runtime \<Rightarrow> 'n jsval \<Rightarrow> 'n jsval \<Rightarrow> 'n server \<Rightarrow> 'n server \<times> js_error option" where
  "handleConversionMessageChange rt operation data st =
     (let st1 = io_to_emit ''conversion-messages'' ''postgres_changes''
            (JObj [(''event'', operation),
                   (''schema'', JStr ''public''),
                   (''table'', JStr ''ConversionMessage''),
                   (''new'', if operation = JStr ''DELETE'' then JNull else data),
                   (''old'', if operation = JStr ''INSERT'' then JNull else data)]) st
      in case get_prop data ''conversionId'' of
           Inl e \<Rightarrow> (st1, Some e)
         | Inr cid \<Rightarrow>
             if ToBoolean rt cid then
               (case ToString rt cid of
                  Inl e \<Rightarrow> (st1, Some e)
                | Inr s \<Rightarrow>
                    (io_to_emit (''conversion-'' @ s) ''postgres_changes''
                       (JObj [(''event'', operation),
                              (''schema'', JStr ''public''),
                              (''table'', JStr ''ConversionMessage''),
                              (''new'', if operation = JStr ''DELETE'' then JNull else data),
                              (''old'', if operation = JStr ''INSERT'' then JNull else data)]) st1,
                     None))
             else (st1, None))"

definition handleConversionChange :: "'n jsval \<Rightarrow> 'n jsval \<Rightarrow> 'n server \<Rightarrow> 'n server" where
  "handleConversionChange operation data st =
     io_to_emit ''conversions'' ''postgres_changes''
       (JObj [(''event'', operation),
              (''schema'', JStr ''public''),
              (''table'', JStr ''Conversion''),
              (''new'', if operation = JStr ''DELETE'' then JNull else data),
              (''old'', if operation = JStr ''INSERT'' then JNull else data)]) st"

definition handleConversionStepChange ::
  "'n js_runtime \<Rightarrow> 'n jsval \<Rightarrow> 'n jsval \<Rightarrow> 'n server \<Rightarrow> 'n server \<times> js_error option" where
  "handleConversionStepChange rt operation data st =
     (let st1 = io_to_emit ''conversion-steps'' ''postgres_changes''
            (JObj [(''event'', operation),
                   (''schema'', JStr ''public''),
                   (''table'', JStr ''ConversionStep''),
                   (''new'', if operation = JStr ''DELETE'' then JNull else data),
                   (''old'', if operation = JStr ''INSERT'' then JNull else data)]) st
      in case get_prop data ''conversionId'' of
           Inl e \<Rightarrow> (st1, Some e)
         | Inr cid \<Rightarrow>
             if ToBoolean rt cid then
               (case ToString rt cid of
                  Inl e \<Rightarrow> (st1, Some e)
                | Inr s \<Rightarrow>
                    (io_to_emit (''conversion-'' @ s) ''postgres_changes''
                       (JObj [(''event'', operation),
                              (''schema'', JStr ''public''),
                              (''table'', JStr ''ConversionStep''),
                              (''new'', if operation = JStr ''DELETE'' then JNull else data),
                              (''old'', if operation = JStr ''INSERT'' then JNull else data)]) st1,
                     None))
             else (st1, None))"

text \<open>
  \<^verbatim>\<open>const { operation, table, data } = payload\<close> throws on \<^verbatim>\<open>null\<close> and
  \<^verbatim>\<open>undefined\<close> before anything is emitted; then the switch on the channel.
\<close>

definition handlePgNotification ::
  "'n js_runtime \<Rightarrow> string \<Rightarrow> 'n jsval \<Rightarrow> 'n server \<Rightarrow> 'n server \<times> js_error option" where
  "handlePgNotification rt channel payload st =
     (case get_prop payload ''operation'' of
        Inl e \<Rightarrow> (st, Some e)
      | Inr operation \<Rightarrow>
     (case get_prop payload ''table'' of
        Inl e \<Rightarrow> (st, Some e)
      | Inr table \<Rightarrow>
     (case get_prop payload ''data'' of
        Inl e \<Rightarrow> (st, Some e)
      | Inr data \<Rightarrow>
          if channel = ''conversion_message_changes'' then
            handleConversionMessageChange rt operation data st
          else if channel = ''conversion_changes'' then
            (handleConversionChange operation data st, None)
          else if channel = ''conversion_step_changes'' then
            handleConversionStepChange rt operation data st
          else if channel = ''test_channel'' then
            (io_emit ''test_notification'' (JObj [(''message'', payload)]) st, None)
          else
            (io_to_emit channel ''postgres_changes''
               (JObj [(''event'', if ToBoolean rt operation then operation else JStr ''UNKNOWN''),
                      (''schema'', JStr ''public''),
                      (''table'', if ToBoolean rt table then table else JStr ''unknown''),
                      (''new'', data),
                      (''old'', JNull),
                      (''channel'', JStr channel)])
               (console_out (LogUnknownChannel channel) st),
             None))))"

text \<open>A raw notification: \<^verbatim>\<open>msg.channel\<close> and \<^verbatim>\<open>msg.payload\<close>, which may be absent.\<close>

record pg_msg =
  channel :: string
  payload :: "string option"

text \<open>\<^verbatim>\<open>msg.payload || "{}"\<close>: an absent or empty payload is read as the empty object.\<close>

definition payload_text :: "pg_msg \<Rightarrow> string" where
  "payload_text msg =
     (case payload msg of None \<Rightarrow> ''{}'' | Some s \<Rightarrow> if s = [] then ''{}'' else s)"

text \<open>
  The listener registered with \<^verbatim>\<open>on("notification", ...)\<close>. Its whole body is
  one try block, \<open>notification_try\<close>, which ends with the exception it threw, if any;
  the catch block writes one error line and returns.
\<close>

definition notification_try ::
  "'n js_runtime \<Rightarrow> pg_msg \<Rightarrow> 'n server \<Rightarrow> 'n server \<times> js_error option" where
  "notification_try rt msg st =
     (case JSON_parse rt (payload_text msg) of
        None \<Rightarrow> (st, Some SyntaxError)
      | Some p \<Rightarrow>
          handlePgNotification rt (channel msg) p
            (console_out (LogReceived (channel msg) p) st))"

definition notification_listener :: "'n js_runtime \<Rightarrow> pg_msg \<Rightarrow> 'n server \<Rightarrow> 'n server" where
  "notification_listener rt msg st =
     (case notification_try rt msg st of
        (st', None) \<Rightarrow> st'
      | (st', Some e) \<Rightarrow> console_out (ErrProcessing e) st')"

section \<open>The connection to PostgreSQL: setup, reconnect, close\<close>

definition upd_client :: "nat \<Rightarrow> (pg_client \<Rightarrow> pg_client) \<Rightarrow> 'n server \<Rightarrow> 'n server" where
  "upd_client c f st = st\<lparr>clients := (clients st)[c := f (clients st ! c)]\<rparr>"

definition suspend :: "awaiting \<Rightarrow> 'n server \<Rightarrow> 'n server" where
  "suspend t st = st\<lparr>tasks := tasks st @ [t]\<rparr>"

definition setTimeout :: "timer_cb \<Rightarrow> nat \<Rightarrow> 'n server \<Rightarrow> 'n server" where
  "setTimeout cb ms st = st\<lparr>timers := timers st @ [(ms, cb)]\<rparr>"

text \<open>
  \<^verbatim>\<open>setupPgNotifications\<close>, cut at its awaits. The call itself runs up to
  \<^verbatim>\<open>await this.pgClient.connect()\<close>: it tests nothing and invokes
  \<^verbatim>\<open>connect\<close> on the current client.
\<close>

definition setupPgNotifications :: "'n server \<Rightarrow> 'n server" where
  "setupPgNotifications st = suspend (SetupConnect (pgClient st)) st"

text \<open>The catch block of \<^verbatim>\<open>setupPgNotifications\<close>.\<close>

definition setup_catch :: "'n server \<Rightarrow> 'n server" where
  "setup_catch st = setTimeout SetupCb 5000 (console_out ErrSetupFailed st)"

text \<open>
  \<^verbatim>\<open>connect()\<close> on client \<open>c\<close> has settled. Resolved: the first
  \<^verbatim>\<open>LISTEN\<close> is sent on what \<^verbatim>\<open>this.pgClient\<close> is by then, with the
  three others still to come. Rejected: the catch block.
\<close>

definition setup_connect_settled :: "nat \<Rightarrow> bool \<Rightarrow> 'n server \<Rightarrow> 'n server" where
  "setup_connect_settled c ok st =
     (if ok then
        (let st1 = console_out LogConnected (upd_client c (\<lambda>cl. cl\<lparr>connected := True\<rparr>) st)
         in suspend (SetupListen ''conversion_message_changes''
                       [''conversion_changes'', ''conversion_step_changes'', ''test_channel'']
                       (pgClient st1)) st1)
      else setup_catch st)"

text \<open>
  The query \<^verbatim>\<open>LISTEN ch\<close> on client \<open>c\<close> has settled. Resolved: the next
  \<^verbatim>\<open>LISTEN\<close> is sent on the current client; after the last one the two
  listeners are registered on the current client. Rejected: the catch block.
\<close>

definition setup_listen_settled ::
  "string \<Rightarrow> string list \<Rightarrow> nat \<Rightarrow> bool \<Rightarrow> 'n server \<Rightarrow> 'n server" where
  "setup_listen_settled ch rest c ok st =
     (if ok then
        (let st1 = upd_client c (\<lambda>cl. cl\<lparr>listening := listening cl @ [ch]\<rparr>) st
         in case rest of
              ch' # rest' \<Rightarrow> suspend (SetupListen ch' rest' (pgClient st1)) st1
            | [] \<Rightarrow>
                upd_client (pgClient st1)
                  (\<lambda>cl. cl\<lparr>notification_listeners := Suc (notification_listeners cl),
                            error_listeners := Suc (error_listeners cl)\<rparr>) st1)
      else setup_catch st)"

text \<open>
  \<^verbatim>\<open>reconnectPg\<close>: the call runs up to \<^verbatim>\<open>await this.pgClient.end()\<close>.
\<close>

definition reconnectPg :: "'n server \<Rightarrow> 'n server" where
  "reconnectPg st = suspend (ReconnectEnd (pgClient st)) (console_out LogReconnecting st)"

text \<open>
  \<^verbatim>\<open>end()\<close> on client \<open>c\<close> has settled inside \<^verbatim>\<open>reconnectPg\<close>.
  Resolved: a new client object replaces \<^verbatim>\<open>this.pgClient\<close> and
  \<^verbatim>\<open>setupPgNotifications\<close> is called; its promise never rejects (its own body
  is one try block), and nothing follows the await. Rejected: the catch block sets a timer.
\<close>

definition reconnect_end_settled :: "nat \<Rightarrow> bool \<Rightarrow> 'n server \<Rightarrow> 'n server" where
  "reconnect_end_settled c ok st =
     (if ok then
        (let st1 = upd_client c (\<lambda>cl. cl\<lparr>ended := True\<rparr>) st;
             st2 = st1\<lparr>clients := clients st1 @ [new_Client], pgClient := length (clients st1)\<rparr>
         in setupPgNotifications st2)
      else setTimeout ReconnectCb 5000 (console_out ErrReconnectFailed st))"

text \<open>The listener registered with \<^verbatim>\<open>on("error", ...)\<close>.\<close>

definition error_listener :: "'n server \<Rightarrow> 'n server" where
  "error_listener st = reconnectPg (console_out ErrClientError st)"

text \<open>
  \<^verbatim>\<open>close\<close>: the call runs up to \<^verbatim>\<open>await this.pgClient.end()\<close>. The try
  block then closes the HTTP server; a rejection is caught and logged, so the promise of
  \<^verbatim>\<open>close\<close> never rejects. The body of the try block is given as a result of its
  own, the catch around it in \<open>close_end_settled\<close>.
\<close>

definition close :: "'n server \<Rightarrow> 'n server" where
  "close st = suspend (CloseEnd (pgClient st)) (console_out LogShuttingDown st)"

definition close_try :: "nat \<Rightarrow> bool \<Rightarrow> 'n server \<Rightarrow> unit + 'n server" where
  "close_try c ok st =
     (if ok then
        Inr (console_out LogShutdownComplete
               ((upd_client c (\<lambda>cl. cl\<lparr>ended := True\<rparr>) st)\<lparr>httpClosed := True\<rparr>))
      else Inl ())"

definition close_end_settled :: "nat \<Rightarrow> bool \<Rightarrow> 'n server \<Rightarrow> 'n server" where
  "close_end_settled c ok st =
     (case close_try c ok st of
        Inr st' \<Rightarrow> st'
      | Inl u \<Rightarrow> console_out ErrShutdown st)"

text \<open>The constructor, as far as the connection goes: one client, and the setup call.\<close>

definition construct :: "unit \<Rightarrow> 'n server" where
  "construct u = setupPgNotifications
     \<lparr>pgClient = 0, clients = [new_Client], tasks = [], timers = [],
      emitted = [], console = [], httpClosed = False\<rparr>"

subsection \<open>What can happen next\<close>

text \<open>
  The event loop runs one of: the promise awaited by the \<open>i\<close>-th suspended call settles
  (resolved or rejected); client \<open>c\<close> emits \<^verbatim>\<open>error\<close> or
  \<^verbatim>\<open>notification\<close>, which runs every listener registered on it; the \<open>i\<close>-th
  pending timer fires; \<^verbatim>\<open>close()\<close> is called. Which promise settles next and how
  is up to PostgreSQL and the network, so every order and every outcome is a run. What the
  \<^verbatim>\<open>pg\<close> library does to a client when a promise resolves is part of the step:
  \<^verbatim>\<open>connect()\<close> marks it connected, a \<^verbatim>\<open>LISTEN\<close> adds the channel,
  \<^verbatim>\<open>end()\<close> marks it ended. An \<^verbatim>\<open>error\<close> event on a client that has
  no error listener changes nothing in the server: Node turns it into an uncaught
  exception, which is for the process to handle.
\<close>

datatype event =
    Settle nat bool
  | PgError nat
  | PgNotify nat pg_msg
  | TimerFire nat
  | Close

definition remove_nth :: "nat \<Rightarrow> 'a list \<Rightarrow> 'a list" where
  "remove_nth i xs = take i xs @ drop (Suc i) xs"

fun resume :: "awaiting \<Rightarrow> bool \<Rightarrow> 'n server \<Rightarrow> 'n server" where
  "resume (SetupConnect c) ok st = setup_connect_settled c ok st"
| "resume (SetupListen ch rest c) ok st = setup_listen_settled ch rest c ok st"
| "resume (ReconnectEnd c) ok st = reconnect_end_settled c ok st"
| "resume (CloseEnd c) ok st = close_end_settled c ok st"

fun run_timer :: "timer_cb \<Rightarrow> 'n server \<Rightarrow> 'n server" where
  "run_timer SetupCb st = setupPgNotifications st"
| "run_timer ReconnectCb st = reconnectPg st"

fun step :: "'n js_runtime \<Rightarrow> 'n server \<Rightarrow> event \<Rightarrow> 'n server" where
  "step rt st (Settle i ok) =
     (if i < length (tasks st)
      then resume (tasks st ! i) ok (st\<lparr>tasks := remove_nth i (tasks st)\<rparr>)
      else st)"
| "step rt st (PgError c) =
     (if c < length (clients st)
      then (error_listener ^^ error_listeners (clients st ! c)) st
      else st)"
| "step rt st (PgNotify c msg) =
     (if c < length (clients st)
      then (notification_listener rt msg ^^ notification_listeners (clients st ! c)) st
      else st)"
| "step rt st (TimerFire i) =
     (if i < length (timers st)
      then run_timer (snd (timers st ! i)) (st\<lparr>timers := remove_nth i (timers st)\<rparr>)
      else st)"
| "step rt st Close = close st"

definition run :: "'n js_runtime \<Rightarrow> 'n server \<Rightarrow> event list \<Rightarrow> 'n server" where
  "run rt st evs = foldl (step rt) st evs"

text \<open>A connection is live when it has been opened and not released.\<close>

definition live :: "pg_client \<Rightarrow> bool" where
  "live cl = (connected cl \<and> \<not> ended cl)"

definition live_count :: "'n server \<Rightarrow> nat" where
  "live_count st = length (filter live (clients st))"

section \<open>Sample inputs\<close>

text \<open>
  A runtime for the concrete runs below. Its numbers are integers, printed in decimal as
  JavaScript prints an integer of magnitude below \<open>10\<^sup>2\<^sup>1\<close>. Its
  \<^verbatim>\<open>JSON.parse\<close> is the real one cut down to the texts that are used: each
  listed text with the value it parses to; the two other texts used, the empty text and
  \<^verbatim>\<open>hello\<close>, are not JSON.
\<close>

function digits :: "nat \<Rightarrow> string" where
  "digits n =
     (if n < 10 then [''0123456789'' ! n]
      else digits (n div 10) @ [''0123456789'' ! (n mod 10)])"
  by pat_completeness auto
termination
  by (relation "measure id") auto

definition int_toString :: "int \<Rightarrow> string" where
  "int_toString i = (if i < 0 then CHR ''-'' # digits (nat (- i)) else digits (nat i))"

definition sample_JSON_parse :: "string \<Rightarrow> int jsval option" where
  \<open>sample_JSON_parse = map_of
     [(''{}'', JObj []),
      (''null'', JNull),
      (''{"operation":"INSERT","data":{"id":"m1","conversionId":"c1"}}'',
         JObj [(''operation'', JStr ''INSERT''),
               (''data'', JObj [(''id'', JStr ''m1''), (''conversionId'', JStr ''c1'')])]),
      (''{"operation":"INSERT","data":{"id":"m2","conversionId":0}}'',
         JObj [(''operation'', JStr ''INSERT''),
               (''data'', JObj [(''id'', JStr ''m2''), (''conversionId'', JNum 0)])]),
      (''{"operation":"UPDATE","data":{"conversionId":"c1","id":"s1","status":"done"}}'',
         JObj [(''operation'', JStr ''UPDATE''),
               (''data'', JObj [(''conversionId'', JStr ''c1''), (''id'', JStr ''s1''),
                                (''status'', JStr ''done'')])]),
      (''{"operation":"DELETE","table":"Custom","data":{"id":"x1"}}'',
         JObj [(''operation'', JStr ''DELETE''), (''table'', JStr ''Custom''),
               (''data'', JObj [(''id'', JStr ''x1'')])]),
      (''{"operation":"UPDATE","data":{"id":"k1"}}'',
         JObj [(''operation'', JStr ''UPDATE''), (''data'', JObj [(''id'', JStr ''k1'')])]),
      (''{"data":{"id":"k1"}}'',
         JObj [(''data'', JObj [(''id'', JStr ''k1'')])]),
      (''{"hello":"world"}'',
         JObj [(''hello'', JStr ''world'')])]\<close>

definition sample_rt :: "int js_runtime" where
  "sample_rt = \<lparr>JSON_parse = sample_JSON_parse, Number_isZero = (\<lambda>n. n = 0),
     Number_toString = int_toString\<rparr>"

text \<open>A server that has emitted nothing yet, with one client and nothing pending.\<close>

definition idle :: "int server" where
  "idle = \<lparr>pgClient = 0, clients = [new_Client], tasks = [], timers = [],
     emitted = [], console = [], httpClosed = False\<rparr>"

definition msg_insert_c1 :: pg_msg where
  \<open>msg_insert_c1 = \<lparr>channel = ''conversion_message_changes'',
     payload = Some ''{"operation":"INSERT","data":{"id":"m1","conversionId":"c1"}}''\<rparr>\<close>

definition msg_insert_zero :: pg_msg where
  \<open>msg_insert_zero = \<lparr>channel = ''conversion_message_changes'',
     payload = Some ''{"operation":"INSERT","data":{"id":"m2","conversionId":0}}''\<rparr>\<close>

definition msg_step_update :: pg_msg where
  \<open>msg_step_update = \<lparr>channel = ''conversion_step_changes'',
     payload = Some ''{"operation":"UPDATE","data":{"conversionId":"c1","id":"s1","status":"done"}}''\<rparr>\<close>

definition msg_custom_delete :: pg_msg where
  \<open>msg_custom_delete = \<lparr>channel = ''custom_channel'',
     payload = Some ''{"operation":"DELETE","table":"Custom","data":{"id":"x1"}}''\<rparr>\<close>

definition msg_conversion_update :: pg_msg where
  \<open>msg_conversion_update = \<lparr>channel = ''conversion_changes'',
     payload = Some ''{"operation":"UPDATE","data":{"id":"k1"}}''\<rparr>\<close>

definition msg_conversion_no_operation :: pg_msg where
  \<open>msg_conversion_no_operation = \<lparr>channel = ''conversion_changes'',
     payload = Some ''{"data":{"id":"k1"}}''\<rparr>\<close>

definition msg_conversion_empty :: pg_msg where
  "msg_conversion_empty = \<lparr>channel = ''conversion_changes'', payload = Some []\<rparr>"

definition msg_conversion_garbage :: pg_msg where
  "msg_conversion_garbage = \<lparr>channel = ''conversion_changes'', payload = Some ''hello''\<rparr>"

definition msg_test_hello_world :: pg_msg where
  \<open>msg_test_hello_world = \<lparr>channel = ''test_channel'',
     payload = Some ''{"hello":"world"}''\<rparr>\<close>

definition msg_test_hello :: pg_msg where
  "msg_test_hello = \<lparr>channel = ''test_channel'', payload = Some ''hello''\<rparr>"

definition msg_test_null :: pg_msg where
  "msg_test_null = \<lparr>channel = ''test_channel'', payload = Some ''null''\<rparr>"

definition msg_custom_no_operation :: pg_msg where
  \<open>msg_custom_no_operation = \<lparr>channel = ''custom_channel'',
     payload = Some ''{"data":{"id":"k1"}}''\<rparr>\<close>

text \<open>
  The server once its first setup has gone through: \<^verbatim>\<open>connect()\<close> and the four
  \<^verbatim>\<open>LISTEN\<close> queries have resolved, one after the other.
\<close>

definition listening_state :: "int server" where
  "listening_state = run sample_rt (construct ()) (replicate 5 (Settle 0 True))"

text \<open>
  From the listening server: the client emits \<^verbatim>\<open>error\<close> and the
  \<^verbatim>\<open>end()\<close> of the reconnect attempt rejects, which leaves a retry timer pending.
\<close>

definition retry_pending_state :: "int server" where
  "retry_pending_state = run sample_rt listening_state [PgError 0, Settle 0 False]"

text \<open>
  From that state: \<^verbatim>\<open>close()\<close> is called; the pending timer fires while
  \<^verbatim>\<open>close\<close> is still waiting; the \<^verbatim>\<open>end()\<close> of the retry resolves, then
  the \<^verbatim>\<open>connect()\<close> of its new client, then the \<^verbatim>\<open>end()\<close> awaited by
  \<^verbatim>\<open>close\<close>.
\<close>

definition after_shutdown_state :: "int server" where
  "after_shutdown_state =
     run sample_rt retry_pending_state
       [Close, TimerFire 0, Settle 1 True, Settle 1 True, Settle 0 True]"

text \<open>
  From the listening server: the client emits \<^verbatim>\<open>error\<close> twice, the two
  \<^verbatim>\<open>end()\<close> calls resolve, and so does everything the two setups await.
\<close>

definition double_error_state :: "int server" where
  "double_error_state =
     run sample_rt listening_state
       ([PgError 0, PgError 0, Settle 0 True, Settle 0 True] @ replicate 10 (Settle 0 True))"

text \<open>The same two errors, with both \<^verbatim>\<open>end()\<close> calls rejecting.\<close>

definition double_failure_state :: "int server" where
  "double_failure_state =
     run sample_rt listening_state [PgError 0, PgError 0, Settle 0 False, Settle 0 False]"

section \<open>Runs in which reconnect attempts do not overlap\<close>

text \<open>The client on which a suspended call is waiting.\<close>

fun task_client :: "awaiting \<Rightarrow> nat" where
  "task_client (SetupConnect c) = c"
| "task_client (SetupListen ch rest c) = c"
| "task_client (ReconnectEnd c) = c"
| "task_client (CloseEnd c) = c"

text \<open>
  Every suspended call waits on the current client, and no other client is live.
\<close>

definition on_current :: "'n server \<Rightarrow> bool" where
  "on_current st =
     (pgClient st < length (clients st)
      \<and> list_all (\<lambda>t. task_client t = pgClient st) (tasks st)
      \<and> list_all (\<lambda>c. live (clients st ! c) \<longrightarrow> c = pgClient st) [0..<length (clients st)])"

text \<open>
  An event is without overlap unless it resolves the \<^verbatim>\<open>end()\<close> awaited by a
  \<^verbatim>\<open>reconnectPg\<close> call while another call is suspended as well.
\<close>

fun no_overlap :: "'n server \<Rightarrow> event \<Rightarrow> bool" where
  "no_overlap st (Settle i ok) =
     (if ok \<and> i < length (tasks st)
      then (case tasks st ! i of
              ReconnectEnd c \<Rightarrow> length (tasks st) = 1
            | SetupConnect c \<Rightarrow> True
            | SetupListen ch rest c \<Rightarrow> True
            | CloseEnd c \<Rightarrow> True)
      else True)"
| "no_overlap st (PgError c) = True"
| "no_overlap st (PgNotify c msg) = True"
| "no_overlap st (TimerFire i) = True"
| "no_overlap st Close = True"

fun calm :: "'n js_runtime \<Rightarrow> 'n server \<Rightarrow> event list \<Rightarrow> bool" where
  "calm rt st [] = True"
| "calm rt st (ev # evs) = (no_overlap st ev \<and> calm rt (step rt st ev) evs)"

section \<open>Properties of the decode, route, broadcast pipeline\<close>

lemma get_prop_total: "get_prop p k = Inr v \<Longrightarrow> \<exists>v'. get_prop p k' = Inr v'"
  by (cases p) (auto split: option.splits)

lemma get_prop_defined: "p \<noteq> JUndefined \<Longrightarrow> p \<noteq> JNull \<Longrightarrow> \<exists>v. get_prop p k = Inr v"
  by (cases p) (auto split: option.splits)

lemma emitted_io_to_emit [simp]:
  "emitted (io_to_emit room name b st) =
     emitted st @ [\<lparr>target = Room room, event_name = name, body = b\<rparr>]"
  by (simp add: io_to_emit_def)

lemma emitted_io_emit [simp]:
  "emitted (io_emit name b st) =
     emitted st @ [\<lparr>target = AllSockets, event_name = name, body = b\<rparr>]"
  by (simp add: io_emit_def)

lemma emitted_console_out [simp]: "emitted (console_out l st) = emitted st"
  by (simp add: console_out_def)

lemmas sample_defs =
  sample_rt_def sample_JSON_parse_def payload_text_def idle_def int_toString_def

lemmas pipeline_defs =
  notification_listener_def notification_try_def handlePgNotification_def
  handleConversionMessageChange_def handleConversionChange_def
  handleConversionStepChange_def Let_def

subsection \<open>Scoped fanout of message and step changes\<close>

text \<open>
  C1, as the code has it. A notification on \<^verbatim>\<open>conversion_message_changes\<close> or
  \<^verbatim>\<open>conversion_step_changes\<close> whose payload decodes is broadcast to the static
  topic of its kind and then to \<^verbatim>\<open>conversion-<k>\<close> exactly when the decoded data has
  a \<^verbatim>\<open>conversionId\<close> whose value \<open>k\<close> is truthy and has a string form. In every
  other case (the field absent, its value \<^verbatim>\<open>null\<close>, \<^verbatim>\<open>false\<close>, \<open>0\<close> or the
  empty string, the data missing) only the static topic is broadcast to.
\<close>

theorem message_step_topics:
  assumes ch: "channel msg = ''conversion_message_changes'' \<or>
               channel msg = ''conversion_step_changes''"
    and parse: "JSON_parse rt (payload_text msg) = Some p"
    and dat: "get_prop p ''data'' = Inr d"
  shows "(\<forall>k s. get_prop d ''conversionId'' = Inr k \<and> ToBoolean rt k \<and> ToString rt k = Inr s \<longrightarrow>
            map target (emitted (notification_listener rt msg st)) =
              map target (emitted st) @
                [Room (if channel msg = ''conversion_message_changes''
                       then ''conversion-messages'' else ''conversion-steps''),
                 Room (''conversion-'' @ s)])
       \<and> (\<not> (\<exists>k s. get_prop d ''conversionId'' = Inr k \<and> ToBoolean rt k \<and>
                     ToString rt k = Inr s) \<longrightarrow>
            map target (emitted (notification_listener rt msg st)) =
              map target (emitted st) @
                [Room (if channel msg = ''conversion_message_changes''
                       then ''conversion-messages'' else ''conversion-steps'')])"
proof -
  obtain op where op: "get_prop p ''operation'' = Inr op"
    using get_prop_total [OF dat] by blast
  obtain tb where tb: "get_prop p ''table'' = Inr tb"
    using get_prop_total [OF dat] by blast
  from ch show ?thesis
  proof
    assume c: "channel msg = ''conversion_message_changes''"
    show ?thesis
      by (auto simp: pipeline_defs parse op tb dat c split: sum.splits option.splits)
  next
    assume c: "channel msg = ''conversion_step_changes''"
    show ?thesis
      by (auto simp: pipeline_defs parse op tb dat c split: sum.splits option.splits)
  qed
qed

theorem message_step_topics_witness:
  "(channel msg_insert_c1 = ''conversion_message_changes'' \<or>
    channel msg_insert_c1 = ''conversion_step_changes'')
   \<and> JSON_parse sample_rt (payload_text msg_insert_c1) =
       Some (JObj [(''operation'', JStr ''INSERT''),
                   (''data'', JObj [(''id'', JStr ''m1''), (''conversionId'', JStr ''c1'')])])
   \<and> ToBoolean sample_rt (JStr ''c1'')
   \<and> map target (emitted (notification_listener sample_rt msg_insert_c1 idle)) =
       [Room ''conversion-messages'', Room ''conversion-c1'']"
proof -
  let ?d = "JObj [(''id'', JStr ''m1''), (''conversionId'', JStr ''c1'')] :: int jsval"
  let ?p = "JObj [(''operation'', JStr ''INSERT''), (''data'', ?d)] :: int jsval"
  have ch: "channel msg_insert_c1 = ''conversion_message_changes'' \<or>
            channel msg_insert_c1 = ''conversion_step_changes''"
    by (simp add: msg_insert_c1_def)
  have parse: "JSON_parse sample_rt (payload_text msg_insert_c1) = Some ?p"
    by (simp add: sample_defs msg_insert_c1_def)
  have dat: "get_prop ?p ''data'' = Inr ?d" by simp
  have k: "get_prop ?d ''conversionId'' = Inr (JStr ''c1'') \<and> ToBoolean sample_rt (JStr ''c1'')
           \<and> ToString sample_rt (JStr ''c1'') = Inr ''c1''" by simp
  have e: "emitted idle = []" by (simp add: idle_def)
  have "map target (emitted (notification_listener sample_rt msg_insert_c1 idle)) =
     [Room ''conversion-messages'', Room ''conversion-c1'']"
    using message_step_topics [OF ch parse dat, of idle] k e
    by (simp add: msg_insert_c1_def)
  with ch parse k show ?thesis by simp
qed

text \<open>
  The claim as written fails where the field is present with a falsy value: the decoded
  data has \<^verbatim>\<open>conversionId\<close> \<open>0\<close>, whose string form is \<^verbatim>\<open>0\<close>, and
  \<^verbatim>\<open>conversion-0\<close> is not broadcast to.
\<close>

theorem falsy_conversionId_counterexample:
  "channel msg_insert_zero = ''conversion_message_changes''
   \<and> JSON_parse sample_rt (payload_text msg_insert_zero) =
       Some (JObj [(''operation'', JStr ''INSERT''),
                   (''data'', JObj [(''id'', JStr ''m2''), (''conversionId'', JNum 0)])])
   \<and> ToString sample_rt (JNum 0) = Inr ''0''
   \<and> map target (emitted (notification_listener sample_rt msg_insert_zero idle)) =
       [Room ''conversion-messages'']
   \<and> Room ''conversion-0'' \<notin>
       set (map target (emitted (notification_listener sample_rt msg_insert_zero idle)))"
  by (simp add: pipeline_defs sample_defs msg_insert_zero_def)

subsection \<open>Top-level conversion changes\<close>

lemma conversion_changes_listener_targets:
  assumes "channel msg = ''conversion_changes''"
    and "JSON_parse rt (payload_text msg) = Some p" and "p \<noteq> JNull" and "p \<noteq> JUndefined"
  shows "map target (emitted (notification_listener rt msg st)) =
           map target (emitted st) @ [Room ''conversions'']"
proof -
  obtain op tb d where "get_prop p ''operation'' = Inr op"
    "get_prop p ''table'' = Inr tb" "get_prop p ''data'' = Inr d"
    using assms(3,4) get_prop_defined by metis
  with assms show ?thesis by (simp add: pipeline_defs)
qed

lemma conversion_changes_listener_dropped:
  assumes "channel msg = ''conversion_changes''"
    and "\<not> (\<exists>p. JSON_parse rt (payload_text msg) = Some p \<and> p \<noteq> JNull \<and> p \<noteq> JUndefined)"
  shows "emitted (notification_listener rt msg st) = emitted st"
proof (cases "JSON_parse rt (payload_text msg)")
  case None
  then show ?thesis by (simp add: pipeline_defs)
next
  case (Some p)
  with assms(2) have "p = JNull \<or> p = JUndefined" by blast
  with Some show ?thesis by (auto simp: pipeline_defs)
qed

text \<open>
  C2. \<^verbatim>\<open>handleConversionChange\<close> emits to the topic \<^verbatim>\<open>conversions\<close> and to
  no other, whatever the operation and the data are. So every notification on
  \<^verbatim>\<open>conversion_changes\<close> that decodes (its payload parses to a value that can be
  destructured) is broadcast to exactly that topic, whatever the payload holds, a
  \<^verbatim>\<open>conversionId\<close> included; and no notification on this channel, decoded or not, is
  ever broadcast to any other topic.
\<close>

theorem conversion_changes_topics:
  assumes ch: "channel msg = ''conversion_changes''"
  shows "map target (emitted (handleConversionChange operation data st)) =
           map target (emitted st) @ [Room ''conversions'']
       \<and> (JSON_parse rt (payload_text msg) = Some p \<and> p \<noteq> JNull \<and> p \<noteq> JUndefined \<longrightarrow>
            map target (emitted (notification_listener rt msg st)) =
              map target (emitted st) @ [Room ''conversions''])
       \<and> set (drop (length (emitted st)) (map target (emitted (notification_listener rt msg st))))
            \<subseteq> {Room ''conversions''}"
proof (intro conjI impI)
  show "map target (emitted (handleConversionChange operation data st)) =
           map target (emitted st) @ [Room ''conversions'']"
    by (simp add: handleConversionChange_def)
next
  assume "JSON_parse rt (payload_text msg) = Some p \<and> p \<noteq> JNull \<and> p \<noteq> JUndefined"
  then show "map target (emitted (notification_listener rt msg st)) =
      map target (emitted st) @ [Room ''conversions'']"
    using conversion_changes_listener_targets [OF ch] by blast
next
  show "set (drop (length (emitted st)) (map target (emitted (notification_listener rt msg st))))
          \<subseteq> {Room ''conversions''}"
  proof (cases "\<exists>q. JSON_parse rt (payload_text msg) = Some q \<and> q \<noteq> JNull \<and> q \<noteq> JUndefined")
    case True
    then obtain q where "JSON_parse rt (payload_text msg) = Some q" "q \<noteq> JNull" "q \<noteq> JUndefined"
      by blast
    from conversion_changes_listener_targets [OF ch this, of st]
    have "drop (length (emitted st)) (map target (emitted (notification_listener rt msg st))) =
        [Room ''conversions'']"
      by simp
    then show ?thesis by simp
  next
    case False
    from conversion_changes_listener_dropped [OF ch False, of st]
    show ?thesis by simp
  qed
qed

theorem conversion_changes_topics_witness:
  "channel msg_conversion_update = ''conversion_changes''
   \<and> JSON_parse sample_rt (payload_text msg_conversion_update) =
       Some (JObj [(''operation'', JStr ''UPDATE''), (''data'', JObj [(''id'', JStr ''k1'')])])
   \<and> map target (emitted (notification_listener sample_rt msg_conversion_update idle)) =
       [Room ''conversions'']"
proof -
  have ch: "channel msg_conversion_update = ''conversion_changes''"
    by (simp add: msg_conversion_update_def)
  have parse: "JSON_parse sample_rt (payload_text msg_conversion_update) =
       Some (JObj [(''operation'', JStr ''UPDATE''), (''data'', JObj [(''id'', JStr ''k1'')])])"
    by (simp add: sample_defs msg_conversion_update_def)
  have e: "emitted idle = []" by (simp add: idle_def)
  from conversion_changes_topics [OF ch, where rt = sample_rt and st = idle
      and p = "JObj [(''operation'', JStr ''UPDATE''), (''data'', JObj [(''id'', JStr ''k1'')])]"]
    parse
  have "map target (emitted (notification_listener sample_rt msg_conversion_update idle)) =
      map target (emitted idle) @ [Room ''conversions'']"
    by simp
  with ch parse e show ?thesis by simp
qed

subsection \<open>The shape of a change-delivery event\<close>

lemma drop_emitted [simp]: "drop (length xs) (xs @ ys) = ys"
  by simp

text \<open>
  C3, as the code has it. In every \<^verbatim>\<open>postgres_changes\<close> event sent for a
  notification on one of the three known channels, \<^verbatim>\<open>new\<close> is \<^verbatim>\<open>null\<close>
  for the operation \<^verbatim>\<open>DELETE\<close> and the decoded data otherwise, and \<^verbatim>\<open>old\<close>
  is \<^verbatim>\<open>null\<close> for \<^verbatim>\<open>INSERT\<close> and the decoded data otherwise. On the
  fallback path of an unknown channel \<^verbatim>\<open>new\<close> is always the decoded data and
  \<^verbatim>\<open>old\<close> is always \<^verbatim>\<open>null\<close>, whatever the operation.
\<close>

theorem change_event_new_old:
  assumes parse: "JSON_parse rt (payload_text msg) = Some p"
    and op: "get_prop p ''operation'' = Inr op"
    and dat: "get_prop p ''data'' = Inr d"
    and e: "e \<in> set (drop (length (emitted st)) (emitted (notification_listener rt msg st)))"
    and name: "event_name e = ''postgres_changes''"
  shows "(channel msg \<in> {''conversion_message_changes'', ''conversion_changes'',
                          ''conversion_step_changes''} \<longrightarrow>
            get_prop (body e) ''new'' = Inr (if op = JStr ''DELETE'' then JNull else d) \<and>
            get_prop (body e) ''old'' = Inr (if op = JStr ''INSERT'' then JNull else d))
       \<and> (channel msg \<notin> {''conversion_message_changes'', ''conversion_changes'',
                          ''conversion_step_changes''} \<longrightarrow>
            get_prop (body e) ''new'' = Inr d \<and> get_prop (body e) ''old'' = Inr JNull)"
proof -
  obtain tb where tb: "get_prop p ''table'' = Inr tb"
    using get_prop_total [OF dat] by blast
  consider (m) "channel msg = ''conversion_message_changes''"
    | (c) "channel msg = ''conversion_changes''"
    | (s) "channel msg = ''conversion_step_changes''"
    | (t) "channel msg = ''test_channel''"
    | (u) "channel msg \<notin> {''conversion_message_changes'', ''conversion_changes'',
                          ''conversion_step_changes'', ''test_channel''}"
    by blast
  then show ?thesis
  proof cases
    case m
    with e show ?thesis
      by (auto simp: pipeline_defs parse op tb dat split: sum.splits option.splits if_splits)
  next
    case c
    with e show ?thesis
      by (auto simp: pipeline_defs parse op tb dat split: sum.splits option.splits if_splits)
  next
    case s
    with e show ?thesis
      by (auto simp: pipeline_defs parse op tb dat split: sum.splits option.splits if_splits)
  next
    case t
    with e name show ?thesis
      by (auto simp: pipeline_defs parse op tb dat split: sum.splits option.splits if_splits)
  next
    case u
    with e show ?thesis
      by (auto simp: pipeline_defs parse op tb dat split: sum.splits option.splits if_splits)
  qed
qed

theorem change_event_new_old_witness:
  "JSON_parse sample_rt (payload_text msg_step_update) =
     Some (JObj [(''operation'', JStr ''UPDATE''),
                 (''data'', JObj [(''conversionId'', JStr ''c1''), (''id'', JStr ''s1''),
                                  (''status'', JStr ''done'')])])
   \<and> map target (emitted (notification_listener sample_rt msg_step_update idle)) =
       [Room ''conversion-steps'', Room ''conversion-c1'']
   \<and> (let e = last (emitted (notification_listener sample_rt msg_step_update idle))
      in event_name e = ''postgres_changes''
       \<and> get_prop (body e) ''new'' =
           Inr (JObj [(''conversionId'', JStr ''c1''), (''id'', JStr ''s1''),
                      (''status'', JStr ''done'')])
       \<and> get_prop (body e) ''old'' =
           Inr (JObj [(''conversionId'', JStr ''c1''), (''id'', JStr ''s1''),
                      (''status'', JStr ''done'')]))"
proof -
  let ?d = "JObj [(''conversionId'', JStr ''c1''), (''id'', JStr ''s1''),
                  (''status'', JStr ''done'')] :: int jsval"
  let ?p = "JObj [(''operation'', JStr ''UPDATE''), (''data'', ?d)] :: int jsval"
  let ?e = "last (emitted (notification_listener sample_rt msg_step_update idle))"
  have parse: "JSON_parse sample_rt (payload_text msg_step_update) = Some ?p"
    by (simp add: sample_defs msg_step_update_def)
  have op: "get_prop ?p ''operation'' = Inr (JStr ''UPDATE'')" by simp
  have dat: "get_prop ?p ''data'' = Inr ?d" by simp
  have tg: "map target (emitted (notification_listener sample_rt msg_step_update idle)) =
       [Room ''conversion-steps'', Room ''conversion-c1'']"
    by (simp add: pipeline_defs sample_defs msg_step_update_def)
  have mem: "?e \<in> set (drop (length (emitted idle))
                 (emitted (notification_listener sample_rt msg_step_update idle)))"
    by (simp add: pipeline_defs sample_defs msg_step_update_def)
  have name: "event_name ?e = ''postgres_changes''"
    by (simp add: pipeline_defs sample_defs msg_step_update_def)
  have ch: "channel msg_step_update = ''conversion_step_changes''"
    by (simp add: msg_step_update_def)
  show ?thesis
    using change_event_new_old [OF parse op dat mem name] parse tg name ch
    by (simp add: Let_def)
qed

text \<open>
  The claim as written includes the fallback path, and fails there: a
  \<^verbatim>\<open>DELETE\<close> on the unknown channel \<^verbatim>\<open>custom_channel\<close> is sent with
  \<^verbatim>\<open>new\<close> holding the data.
\<close>

theorem fallback_new_old_counterexample:
  "JSON_parse sample_rt (payload_text msg_custom_delete) =
     Some (JObj [(''operation'', JStr ''DELETE''), (''table'', JStr ''Custom''),
                 (''data'', JObj [(''id'', JStr ''x1'')])])
   \<and> emitted (notification_listener sample_rt msg_custom_delete idle) =
       [\<lparr>target = Room ''custom_channel'', event_name = ''postgres_changes'',
         body = JObj [(''event'', JStr ''DELETE''),
                      (''schema'', JStr ''public''),
                      (''table'', JStr ''Custom''),
                      (''new'', JObj [(''id'', JStr ''x1'')]),
                      (''old'', JNull),
                      (''channel'', JStr ''custom_channel'')]\<rparr>]"
  by (simp add: pipeline_defs sample_defs msg_custom_delete_def)

subsection \<open>An unknown or missing operation\<close>

text \<open>
  C5, as the code has it. A decoded notification on any channel but
  \<^verbatim>\<open>test_channel\<close> is always broadcast, whatever its operation. On the three known
  channels the event carries the operation as it was decoded, \<^verbatim>\<open>undefined\<close> when
  it is missing. On an unknown channel the event carries \<^verbatim>\<open>UNKNOWN\<close> when the
  operation is missing or falsy, and the operation as decoded otherwise.
\<close>

theorem operation_forwarded:
  assumes parse: "JSON_parse rt (payload_text msg) = Some p"
    and op: "get_prop p ''operation'' = Inr op"
    and ch: "channel msg \<noteq> ''test_channel''"
  shows "drop (length (emitted st)) (emitted (notification_listener rt msg st)) \<noteq> []
       \<and> (\<forall>e \<in> set (drop (length (emitted st)) (emitted (notification_listener rt msg st))).
            event_name e = ''postgres_changes'' \<and>
            get_prop (body e) ''event'' =
              Inr (if channel msg \<in> {''conversion_message_changes'', ''conversion_changes'',
                                      ''conversion_step_changes''}
                   then op
                   else if ToBoolean rt op then op else JStr ''UNKNOWN''))"
proof -
  obtain tb where tb: "get_prop p ''table'' = Inr tb"
    using get_prop_total [OF op] by blast
  obtain d where dat: "get_prop p ''data'' = Inr d"
    using get_prop_total [OF op] by blast
  consider (m) "channel msg = ''conversion_message_changes''"
    | (c) "channel msg = ''conversion_changes''"
    | (s) "channel msg = ''conversion_step_changes''"
    | (u) "channel msg \<notin> {''conversion_message_changes'', ''conversion_changes'',
                          ''conversion_step_changes'', ''test_channel''}"
    using ch by blast
  then show ?thesis
  proof cases
    case m
    then show ?thesis
      by (auto simp: pipeline_defs parse op tb dat split: sum.splits option.splits)
  next
    case c
    then show ?thesis
      by (auto simp: pipeline_defs parse op tb dat split: sum.splits option.splits)
  next
    case s
    then show ?thesis
      by (auto simp: pipeline_defs parse op tb dat split: sum.splits option.splits)
  next
    case u
    then show ?thesis
      by (auto simp: pipeline_defs parse op tb dat split: sum.splits option.splits)
  qed
qed

theorem operation_forwarded_witness:
  "JSON_parse sample_rt (payload_text msg_custom_no_operation) =
     Some (JObj [(''data'', JObj [(''id'', JStr ''k1'')])])
   \<and> channel msg_custom_no_operation \<noteq> ''test_channel''
   \<and> map target (emitted (notification_listener sample_rt msg_custom_no_operation idle)) =
       [Room ''custom_channel'']
   \<and> get_prop (body (last (emitted (notification_listener sample_rt msg_custom_no_operation idle))))
        ''event'' = Inr (JStr ''UNKNOWN'')"
proof -
  let ?p = "JObj [(''data'', JObj [(''id'', JStr ''k1'')])] :: int jsval"
  let ?e = "last (emitted (notification_listener sample_rt msg_custom_no_operation idle))"
  have parse: "JSON_parse sample_rt (payload_text msg_custom_no_operation) = Some ?p"
    by (simp add: sample_defs msg_custom_no_operation_def)
  have op: "get_prop ?p ''operation'' = Inr JUndefined" by simp
  have ch: "channel msg_custom_no_operation \<noteq> ''test_channel''"
    by (simp add: msg_custom_no_operation_def)
  have tg: "map target (emitted (notification_listener sample_rt msg_custom_no_operation idle)) =
       [Room ''custom_channel'']"
    by (simp add: pipeline_defs sample_defs msg_custom_no_operation_def console_out_def)
  have mem: "?e \<in> set (drop (length (emitted idle))
                 (emitted (notification_listener sample_rt msg_custom_no_operation idle)))"
    by (simp add: pipeline_defs sample_defs msg_custom_no_operation_def console_out_def)
  have c2: "channel msg_custom_no_operation = ''custom_channel''"
    by (simp add: msg_custom_no_operation_def)
  show ?thesis
    using operation_forwarded [OF parse op ch, of idle] mem parse ch tg c2
    by simp
qed

text \<open>
  The claim as written, on every channel, fails on \<^verbatim>\<open>conversion_changes\<close>: with
  no operation in the payload the event field is \<^verbatim>\<open>undefined\<close>, not
  \<^verbatim>\<open>UNKNOWN\<close>.
\<close>

theorem missing_operation_counterexample:
  "JSON_parse sample_rt (payload_text msg_conversion_no_operation) =
     Some (JObj [(''data'', JObj [(''id'', JStr ''k1'')])])
   \<and> get_prop (JObj [(''data'', JObj [(''id'', JStr ''k1'')])] :: int jsval) ''operation'' =
       Inr JUndefined
   \<and> emitted (notification_listener sample_rt msg_conversion_no_operation idle) =
       [\<lparr>target = Room ''conversions'', event_name = ''postgres_changes'',
         body = JObj [(''event'', JUndefined),
                      (''schema'', JStr ''public''),
                      (''table'', JStr ''Conversion''),
                      (''new'', JObj [(''id'', JStr ''k1'')]),
                      (''old'', JObj [(''id'', JStr ''k1'')])]\<rparr>]"
  by (simp add: pipeline_defs sample_defs msg_conversion_no_operation_def)

subsection \<open>A payload that does not parse\<close>

lemma notification_listener_frame:
  "emitted (notification_listener rt m (console_out l st)) = emitted (notification_listener rt m st)"
proof (cases "JSON_parse rt (payload_text m)")
  case None
  then show ?thesis by (simp add: notification_listener_def notification_try_def)
next
  case (Some p)
  have sw: "console_out (LogReceived (channel m) p) (console_out l st) = 
     (console_out (LogReceived (channel m) p) st)\<lparr>console := console st @ [l, LogReceived (channel m) p]\<rparr>"
    by (simp add: console_out_def)
  obtain st1 r1 where a: "handlePgNotification rt (channel m) p (console_out (LogReceived (channel m) p) (console_out l st)) = (st1, r1)"
    by fastforce
  obtain st2 r2 where b: "handlePgNotification rt (channel m) p (console_out (LogReceived (channel m) p) st) = (st2, r2)"
    by fastforce
  have "emitted st1 = emitted st2 \<and> r1 = r2"
    using a b 
    by (auto simp: pipeline_defs console_out_def split: sum.splits option.splits if_splits)
  then show ?thesis
    using a b Some by (auto simp: notification_listener_def notification_try_def split: option.splits)
qed

text \<open>
  C4, as the code has it. When the payload is present, not empty, and
  \<^verbatim>\<open>JSON.parse\<close> throws on it, the try block ends with that SyntaxError, the
  listener catches it and returns: the only change to the server is one error line on the
  console, nothing is broadcast, and a notification handled next is broadcast exactly as
  it would have been without the bad one.
\<close>

theorem unparsable_payload_dropped:
  assumes pl: "payload msg = Some s" and ne: "s \<noteq> []" and bad: "JSON_parse rt s = None"
  shows "notification_try rt msg st = (st, Some SyntaxError)
       \<and> notification_listener rt msg st = console_out (ErrProcessing SyntaxError) st
       \<and> emitted (notification_listener rt msg st) = emitted st
       \<and> emitted (notification_listener rt msg' (notification_listener rt msg st)) =
           emitted (notification_listener rt msg' st)"
proof -
  have t: "payload_text msg = s" using pl ne by (simp add: payload_text_def)
  have a: "notification_try rt msg st = (st, Some SyntaxError)"
    by (simp add: notification_try_def t bad)
  then have b: "notification_listener rt msg st = console_out (ErrProcessing SyntaxError) st"
    by (simp add: notification_listener_def)
  show ?thesis using a b by (simp add: notification_listener_frame)
qed

theorem unparsable_payload_dropped_witness:
  "payload msg_conversion_garbage = Some ''hello''
   \<and> JSON_parse sample_rt ''hello'' = None
   \<and> emitted (notification_listener sample_rt msg_conversion_garbage idle) = []
   \<and> console (notification_listener sample_rt msg_conversion_garbage idle) =
       [ErrProcessing SyntaxError]
   \<and> map target (emitted (notification_listener sample_rt msg_conversion_update
        (notification_listener sample_rt msg_conversion_garbage idle))) = [Room ''conversions'']"
proof -
  have pl: "payload msg_conversion_garbage = Some ''hello''"
    by (simp add: msg_conversion_garbage_def)
  have ne: "''hello'' \<noteq> []" by simp
  have bad: "JSON_parse sample_rt ''hello'' = None"
    by (simp add: sample_defs)
  have ok: "map target (emitted (notification_listener sample_rt msg_conversion_update idle)) =
      [Room ''conversions'']"
    by (simp add: pipeline_defs sample_defs msg_conversion_update_def)
  have e: "emitted idle = []" and c: "console idle = []"
    by (simp_all add: idle_def)
  note th = unparsable_payload_dropped [OF pl ne bad, of idle msg_conversion_update]
  from th have "console (notification_listener sample_rt msg_conversion_garbage idle) =
      console (console_out (ErrProcessing SyntaxError) idle)"
    by simp
  then have 1: "console (notification_listener sample_rt msg_conversion_garbage idle) =
      [ErrProcessing SyntaxError]"
    using c by (simp add: console_out_def)
  from th e have 2: "emitted (notification_listener sample_rt msg_conversion_garbage idle) = []"
    by simp
  from th have "emitted (notification_listener sample_rt msg_conversion_update
        (notification_listener sample_rt msg_conversion_garbage idle)) =
      emitted (notification_listener sample_rt msg_conversion_update idle)"
    by blast
  with ok have 3: "map target (emitted (notification_listener sample_rt msg_conversion_update
        (notification_listener sample_rt msg_conversion_garbage idle))) = [Room ''conversions'']"
    by simp
  from pl bad 1 2 3 show ?thesis by simp
qed

text \<open>
  The claim as written fails for the empty payload, which is not parsable either: the
  listener reads it as \<^verbatim>\<open>{}\<close>, so it is broadcast and no diagnostic is written.
\<close>

theorem empty_payload_counterexample:
  "payload msg_conversion_empty = Some []
   \<and> JSON_parse sample_rt [] = None
   \<and> emitted (notification_listener sample_rt msg_conversion_empty idle) =
       [\<lparr>target = Room ''conversions'', event_name = ''postgres_changes'',
         body = JObj [(''event'', JUndefined),
                      (''schema'', JStr ''public''),
                      (''table'', JStr ''Conversion''),
                      (''new'', JUndefined),
                      (''old'', JUndefined)]\<rparr>]
   \<and> console (notification_listener sample_rt msg_conversion_empty idle) =
       [LogReceived ''conversion_changes'' (JObj [])]"
  by (simp add: pipeline_defs sample_defs msg_conversion_empty_def console_out_def io_to_emit_def)

subsection \<open>The test channel\<close>

text \<open>
  C10, as the code has it. A notification on \<^verbatim>\<open>test_channel\<close> whose payload
  parses to a value \<open>p\<close> other than \<^verbatim>\<open>null\<close> makes the server emit one event
  \<^verbatim>\<open>test_notification\<close> with body \<^verbatim>\<open>{message: p}\<close> to every connected
  socket, and nothing to any room. A payload that does not parse, or parses to
  \<^verbatim>\<open>null\<close>, makes it emit nothing.
\<close>

theorem test_channel_emission:
  assumes ch: "channel msg = ''test_channel''"
  shows "(\<forall>p. JSON_parse rt (payload_text msg) = Some p \<and> p \<noteq> JNull \<and> p \<noteq> JUndefined \<longrightarrow>
            emitted (notification_listener rt msg st) =
              emitted st @ [\<lparr>target = AllSockets, event_name = ''test_notification'',
                              body = JObj [(''message'', p)]\<rparr>])
       \<and> (\<not> (\<exists>p. JSON_parse rt (payload_text msg) = Some p \<and> p \<noteq> JNull \<and> p \<noteq> JUndefined) \<longrightarrow>
            emitted (notification_listener rt msg st) = emitted st)"
proof (intro conjI allI impI)
  fix p
  assume a: "JSON_parse rt (payload_text msg) = Some p \<and> p \<noteq> JNull \<and> p \<noteq> JUndefined"
  then obtain op tb d where "get_prop p ''operation'' = Inr op"
    "get_prop p ''table'' = Inr tb" "get_prop p ''data'' = Inr d"
    using get_prop_defined by metis
  with a show "emitted (notification_listener rt msg st) =
      emitted st @ [\<lparr>target = AllSockets, event_name = ''test_notification'',
                      body = JObj [(''message'', p)]\<rparr>]"
    by (simp add: pipeline_defs ch)
next
  assume n: "\<not> (\<exists>p. JSON_parse rt (payload_text msg) = Some p \<and> p \<noteq> JNull \<and> p \<noteq> JUndefined)"
  show "emitted (notification_listener rt msg st) = emitted st"
  proof (cases "JSON_parse rt (payload_text msg)")
    case None
    then show ?thesis by (simp add: pipeline_defs)
  next
    case (Some p)
    with n have "p = JNull \<or> p = JUndefined" by blast
    with Some show ?thesis by (auto simp: pipeline_defs)
  qed
qed

theorem test_channel_emission_witness:
  "channel msg_test_hello_world = ''test_channel''
   \<and> JSON_parse sample_rt (payload_text msg_test_hello_world) = Some (JObj [(''hello'', JStr ''world'')])
   \<and> emitted (notification_listener sample_rt msg_test_hello_world idle) =
       [\<lparr>target = AllSockets, event_name = ''test_notification'',
         body = JObj [(''message'', JObj [(''hello'', JStr ''world'')])]\<rparr>]"
proof -
  have ch: "channel msg_test_hello_world = ''test_channel''"
    by (simp add: msg_test_hello_world_def)
  have parse: "JSON_parse sample_rt (payload_text msg_test_hello_world) =
       Some (JObj [(''hello'', JStr ''world'')])"
    by (simp add: sample_defs msg_test_hello_world_def)
  have e: "emitted idle = []" by (simp add: idle_def)
  show ?thesis
    using test_channel_emission [OF ch, of sample_rt idle] ch parse e by simp
qed

text \<open>
  The claim as written, for every notification, fails at the plain text payload
  \<^verbatim>\<open>hello\<close>, which is not JSON, and at the payload \<^verbatim>\<open>null\<close>, which is:
  no \<^verbatim>\<open>test_notification\<close> is emitted for either.
\<close>

theorem test_channel_dropped_counterexample:
  "channel msg_test_hello = ''test_channel''
   \<and> payload msg_test_hello = Some ''hello''
   \<and> JSON_parse sample_rt (payload_text msg_test_hello) = None
   \<and> emitted (notification_listener sample_rt msg_test_hello idle) = []
   \<and> channel msg_test_null = ''test_channel''
   \<and> JSON_parse sample_rt (payload_text msg_test_null) = Some JNull
   \<and> emitted (notification_listener sample_rt msg_test_null idle) = []"
  by (simp add: pipeline_defs sample_defs msg_test_null_def msg_test_hello_def)

section \<open>Properties of the connection life cycle\<close>

lemmas lifecycle_defs =
  setupPgNotifications_def setup_catch_def setup_connect_settled_def
  setup_listen_settled_def reconnectPg_def reconnect_end_settled_def error_listener_def
  close_def close_try_def close_end_settled_def suspend_def setTimeout_def
  upd_client_def console_out_def remove_nth_def

lemma error_listener_fields:
  "pgClient (error_listener st) = pgClient st"
  "clients (error_listener st) = clients st"
  "timers (error_listener st) = timers st"
  "emitted (error_listener st) = emitted st"
  "httpClosed (error_listener st) = httpClosed st"
  "tasks (error_listener st) = tasks st @ [ReconnectEnd (pgClient st)]"
  by (simp_all add: lifecycle_defs)

lemma error_listener_funpow:
  "pgClient ((error_listener ^^ n) st) = pgClient st
   \<and> clients ((error_listener ^^ n) st) = clients st
   \<and> timers ((error_listener ^^ n) st) = timers st
   \<and> emitted ((error_listener ^^ n) st) = emitted st
   \<and> httpClosed ((error_listener ^^ n) st) = httpClosed st
   \<and> tasks ((error_listener ^^ n) st) = tasks st @ replicate n (ReconnectEnd (pgClient st))"
  by (induction n) (simp_all add: error_listener_fields replicate_append_same)

lemma PgError_starts_attempt_at_once:
  assumes "c < length (clients st)"
  shows "timers (step rt st (PgError c)) = timers st
       \<and> tasks (step rt st (PgError c)) =
           tasks st @ replicate (error_listeners (clients st ! c)) (ReconnectEnd (pgClient st))"
  using assms by (simp add: error_listener_funpow)

lemma notification_listener_timers [simp]:
  "timers (notification_listener rt m st) = timers st"
  by (auto simp: notification_listener_def notification_try_def handlePgNotification_def
        handleConversionMessageChange_def handleConversionChange_def
        handleConversionStepChange_def Let_def io_to_emit_def io_emit_def console_out_def
      split: option.splits sum.splits prod.splits if_splits)

lemma notification_listener_funpow_timers [simp]:
  "timers ((notification_listener rt m ^^ n) st) = timers st"
  by (induction n) simp_all

lemma set_remove_nth: "set (remove_nth i xs) \<subseteq> set xs"
  by (auto simp: remove_nth_def dest: in_set_takeD in_set_dropD)

lemma resume_timers:
  "set (timers (resume t ok st)) \<subseteq> set (timers st) \<union> {(5000, SetupCb), (5000, ReconnectCb)}"
  by (cases t) (auto simp: lifecycle_defs Let_def split: list.splits)

lemma run_timer_timers:
  "timers (run_timer cb st) = timers st"
  by (cases cb) (auto simp: lifecycle_defs)

lemma every_timer_5000:
  "set (timers (step rt st ev)) \<subseteq> set (timers st) \<union> {(5000, SetupCb), (5000, ReconnectCb)}"
proof (cases ev)
  case (Settle i ok)
  show ?thesis
    using resume_timers [of "tasks st ! i" ok "st\<lparr>tasks := remove_nth i (tasks st)\<rparr>"]
    by (auto simp: Settle)
next
  case (PgError c)
  then show ?thesis by (auto simp: error_listener_funpow)
next
  case (PgNotify c m)
  then show ?thesis by auto
next
  case (TimerFire i)
  show ?thesis
    using set_remove_nth [of i "timers st"]
    by (auto simp: TimerFire run_timer_timers)
next
  case Close
  then show ?thesis by (auto simp: lifecycle_defs)
qed

lemma retry_round:
  assumes "tasks st = []" "timers st = [(5000, cb)]"
  shows "tasks (run rt st [TimerFire 0, Settle 0 False]) = []
       \<and> timers (run rt st [TimerFire 0, Settle 0 False]) = [(5000, cb)]"
  using assms by (cases cb) (simp_all add: run_def lifecycle_defs)

lemma run_append: "run rt st (xs @ ys) = run rt (run rt st xs) ys"
  by (simp add: run_def)

lemma retry_chain:
  assumes "tasks st = []" "timers st = [(5000, cb)]"
  shows "tasks (run rt st (concat (replicate n [TimerFire 0, Settle 0 False]))) = []
       \<and> timers (run rt st (concat (replicate n [TimerFire 0, Settle 0 False]))) = [(5000, cb)]"
proof (induction n)
  case 0
  show ?case using assms by (simp add: run_def)
next
  case (Suc n)
  have "concat (replicate (Suc n) [TimerFire 0, Settle 0 False]) =
        concat (replicate n [TimerFire 0, Settle 0 False]) @ [TimerFire 0, Settle 0 False]"
    by (metis concat.simps(2) concat_append replicate_Suc replicate_append_same concat.simps(1) append_Nil2)
  then show ?case
    using retry_round [of "run rt st (concat (replicate n [TimerFire 0, Settle 0 False]))" cb rt] Suc
    by (simp only: run_append) 
qed

lemma listening_state_eq:
  "listening_state = \<lparr>pgClient = 0,
    clients = [\<lparr>connected = True, ended = False,
       listening = [''conversion_message_changes'', ''conversion_changes'',
                    ''conversion_step_changes'', ''test_channel''],
       notification_listeners = 1, error_listeners = 1\<rparr>],
    tasks = [], timers = [], emitted = [], console = [LogConnected],
    httpClosed = False\<rparr>"
  by (simp add: listening_state_def construct_def run_def eval_nat_numeral lifecycle_defs new_Client_def)

lemma retry_pending_state_eq:
  "retry_pending_state = \<lparr>pgClient = 0,
    clients = [\<lparr>connected = True, ended = False,
       listening = [''conversion_message_changes'', ''conversion_changes'',
                    ''conversion_step_changes'', ''test_channel''],
       notification_listeners = 1, error_listeners = 1\<rparr>],
    tasks = [], timers = [(5000, ReconnectCb)], emitted = [],
    console = [LogConnected, ErrClientError, LogReconnecting, ErrReconnectFailed],
    httpClosed = False\<rparr>"
  by (simp add: retry_pending_state_def listening_state_eq run_def lifecycle_defs)


lemma double_failure_state_eq:
  "double_failure_state = \<lparr>pgClient = 0,
    clients = [\<lparr>connected = True, ended = False,
       listening = [''conversion_message_changes'', ''conversion_changes'',
                    ''conversion_step_changes'', ''test_channel''],
       notification_listeners = 1, error_listeners = 1\<rparr>],
    tasks = [], timers = [(5000, ReconnectCb), (5000, ReconnectCb)], emitted = [],
    console = [LogConnected, ErrClientError, LogReconnecting, ErrClientError,
               LogReconnecting, ErrReconnectFailed, ErrReconnectFailed],
    httpClosed = False\<rparr>"
  by (simp add: double_failure_state_def listening_state_eq run_def lifecycle_defs)

lemma double_error_state_eq:
  "double_error_state = \<lparr>pgClient = 2,
    clients =
      [\<lparr>connected = True, ended = True,
          listening = [''conversion_message_changes'', ''conversion_changes'',
                       ''conversion_step_changes'', ''test_channel''],
          notification_listeners = 1, error_listeners = 1\<rparr>,
       \<lparr>connected = True, ended = False, listening = [],
          notification_listeners = 0, error_listeners = 0\<rparr>,
       \<lparr>connected = True, ended = False,
          listening = [''conversion_message_changes'', ''conversion_message_changes'',
                       ''conversion_changes'', ''conversion_changes'',
                       ''conversion_step_changes'', ''conversion_step_changes'',
                       ''test_channel'', ''test_channel''],
          notification_listeners = 2, error_listeners = 2\<rparr>],
    tasks = [], timers = [], emitted = [],
    console = [LogConnected, ErrClientError, LogReconnecting, ErrClientError,
               LogReconnecting, LogConnected, LogConnected],
    httpClosed = False\<rparr>"
  by (simp add: double_error_state_def listening_state_eq run_def eval_nat_numeral
        lifecycle_defs new_Client_def)

lemma after_shutdown_state_eq:
  "after_shutdown_state = \<lparr>pgClient = 1,
    clients =
      [\<lparr>connected = True, ended = True,
          listening = [''conversion_message_changes'', ''conversion_changes'',
                       ''conversion_step_changes'', ''test_channel''],
          notification_listeners = 1, error_listeners = 1\<rparr>,
       \<lparr>connected = True, ended = False, listening = [],
          notification_listeners = 0, error_listeners = 0\<rparr>],
    tasks = [SetupListen ''conversion_message_changes''
               [''conversion_changes'', ''conversion_step_changes'', ''test_channel''] 1],
    timers = [], emitted = [],
    console = [LogConnected, ErrClientError, LogReconnecting, ErrReconnectFailed,
               LogShuttingDown, LogReconnecting, LogConnected, LogShutdownComplete],
    httpClosed = True\<rparr>"
  by (simp add: after_shutdown_state_def retry_pending_state_eq run_def
        lifecycle_defs new_Client_def)

lemma on_current_iff:
  "on_current st \<longleftrightarrow>
     pgClient st < length (clients st)
     \<and> (\<forall>t \<in> set (tasks st). task_client t = pgClient st)
     \<and> (\<forall>c < length (clients st). live (clients st ! c) \<longrightarrow> c = pgClient st)"
  by (auto simp: on_current_def list_all_iff)

lemma live_count_le_1:
  assumes "on_current st"
  shows "live_count st \<le> 1"
proof -
  have "{i. i < length (clients st) \<and> live (clients st ! i)} \<subseteq> {pgClient st}"
    using assms by (auto simp: on_current_iff)
  then have "card {i. i < length (clients st) \<and> live (clients st ! i)} \<le> card {pgClient st}"
    by (intro card_mono) simp_all
  then show ?thesis
    by (simp add: live_count_def length_filter_conv_card)
qed

lemma resume_on_current:
  assumes "on_current st" and "task_client t = pgClient st"
    and "ok \<and> (\<exists>c. t = ReconnectEnd c) \<longrightarrow> tasks st = []"
  shows "on_current (resume t ok st)"
  using assms
  by (cases t)
     (auto simp: on_current_iff lifecycle_defs Let_def nth_list_update nth_append live_def
        new_Client_def split: list.splits if_splits)

lemma notification_listener_changes:
  "notification_listener rt m st =
     st\<lparr>emitted := emitted (notification_listener rt m st),
        console := console (notification_listener rt m st)\<rparr>"
  by (auto simp: notification_listener_def notification_try_def handlePgNotification_def
        handleConversionMessageChange_def handleConversionChange_def
        handleConversionStepChange_def Let_def io_to_emit_def io_emit_def console_out_def
      split: option.splits sum.splits prod.splits if_splits)

lemma notification_listener_fields:
  "pgClient (notification_listener rt m st) = pgClient st"
  "clients (notification_listener rt m st) = clients st"
  "tasks (notification_listener rt m st) = tasks st"
  "httpClosed (notification_listener rt m st) = httpClosed st"
  by (subst notification_listener_changes, simp)+

lemma notification_listener_funpow:
  "pgClient ((notification_listener rt m ^^ n) st) = pgClient st
   \<and> clients ((notification_listener rt m ^^ n) st) = clients st
   \<and> tasks ((notification_listener rt m ^^ n) st) = tasks st
   \<and> httpClosed ((notification_listener rt m ^^ n) st) = httpClosed st"
  by (induction n) (simp_all add: notification_listener_fields)

lemma on_current_cong:
  "pgClient st' = pgClient st \<Longrightarrow> clients st' = clients st \<Longrightarrow> set (tasks st') \<subseteq> set (tasks st)
   \<Longrightarrow> on_current st \<Longrightarrow> on_current st'"
  by (auto simp: on_current_iff)

lemma on_current_step:
  assumes inv: "on_current st" and calm: "no_overlap st ev"
  shows "on_current (step rt st ev)"
proof (cases ev)
  case (Settle i ok)
  show ?thesis
  proof (cases "i < length (tasks st)")
    case False
    then show ?thesis using inv Settle by simp
  next
    case True
    let ?st0 = "st\<lparr>tasks := remove_nth i (tasks st)\<rparr>"
    have a: "on_current ?st0"
      using inv set_remove_nth [of i "tasks st"] by (intro on_current_cong [OF _ _ _ inv]) simp_all
    have b: "task_client (tasks st ! i) = pgClient ?st0"
      using inv True by (simp add: on_current_iff)
    have c: "ok \<and> (\<exists>c. tasks st ! i = ReconnectEnd c) \<longrightarrow> tasks ?st0 = []"
    proof
      assume h: "ok \<and> (\<exists>c. tasks st ! i = ReconnectEnd c)"
      with calm Settle True have "length (tasks st) = 1" by auto
      with True show "tasks ?st0 = []"
        by (cases "tasks st") (simp_all add: remove_nth_def)
    qed
    show ?thesis
      using resume_on_current [OF a b c] True Settle by simp
  qed
next
  case (PgError c)
  then show ?thesis
    using inv by (auto simp: on_current_iff error_listener_funpow)
next
  case (PgNotify c m)
  then show ?thesis
    using inv by (auto simp: on_current_iff notification_listener_funpow)
next
  case (TimerFire i)
  show ?thesis
  proof (cases "i < length (timers st)")
    case False
    then show ?thesis using inv TimerFire by simp
  next
    case True
    then show ?thesis
      using inv TimerFire
      by (cases "snd (timers st ! i)") (auto simp: on_current_iff lifecycle_defs)
  qed
next
  case Close
  then show ?thesis
    using inv by (auto simp: on_current_iff lifecycle_defs)
qed

lemma on_current_run:
  "on_current st \<Longrightarrow> calm rt st evs \<Longrightarrow> on_current (run rt st evs)"
proof (induction evs arbitrary: st)
  case Nil
  then show ?case by (simp add: run_def)
next
  case (Cons ev evs)
  from Cons.prems have "on_current (step rt st ev)" "calm rt (step rt st ev) evs"
    by (simp_all add: on_current_step)
  then have "on_current (run rt (step rt st ev) evs)" by (rule Cons.IH)
  then show ?case by (simp add: run_def)
qed

lemma on_current_construct: "on_current (construct ())"
  by (simp add: on_current_def construct_def lifecycle_defs live_def new_Client_def)

lemma resume_new_client:
  assumes "length (clients (resume t ok st)) \<noteq> length (clients st)"
  shows "\<exists>c. t = ReconnectEnd c \<and> ok
       \<and> clients (resume t ok st) = (clients st)[c := (clients st ! c)\<lparr>ended := True\<rparr>] @ [new_Client]
       \<and> pgClient (resume t ok st) = length (clients st)"
  using assms
  by (cases t) (auto simp: lifecycle_defs Let_def split: list.splits if_splits)

lemma step_new_client:
  assumes "length (clients (step rt st ev)) \<noteq> length (clients st)"
  shows "\<exists>i c. ev = Settle i True \<and> i < length (tasks st) \<and> tasks st ! i = ReconnectEnd c
       \<and> clients (step rt st ev) = (clients st)[c := (clients st ! c)\<lparr>ended := True\<rparr>] @ [new_Client]
       \<and> pgClient (step rt st ev) = length (clients st)"
proof (cases ev)
  case (Settle i ok)
  show ?thesis
  proof (cases "i < length (tasks st)")
    case False
    then show ?thesis using assms Settle by simp
  next
    case True
    then show ?thesis
      using assms Settle
        resume_new_client [of "tasks st ! i" ok "st\<lparr>tasks := remove_nth i (tasks st)\<rparr>"]
      by auto
  qed
next
  case (PgError c)
  then show ?thesis using assms by (auto simp: error_listener_funpow split: if_splits)
next
  case (PgNotify c m)
  then show ?thesis using assms by (auto simp: notification_listener_funpow split: if_splits)
next
  case (TimerFire i)
  show ?thesis
  proof (cases "i < length (timers st)")
    case False
    then show ?thesis using assms TimerFire by simp
  next
    case True
    then show ?thesis
      using assms TimerFire
      by (cases "snd (timers st ! i)") (auto simp: lifecycle_defs)
  qed
next
  case Close
  then show ?thesis using assms by (auto simp: lifecycle_defs)
qed

lemma failed_attempt_timer:
  "timers (resume (ReconnectEnd c) False st) = timers st @ [(5000, ReconnectCb)]"
  "timers (resume (SetupConnect c) False st) = timers st @ [(5000, SetupCb)]"
  "timers (resume (SetupListen ch rest c) False st) = timers st @ [(5000, SetupCb)]"
  by (simp_all add: lifecycle_defs)

subsection \<open>Calling the setup again\<close>

text \<open>
  C6 does not hold of the code. \<^verbatim>\<open>setupPgNotifications\<close> looks at no connection
  state, and the callers keep it to one call per client only as long as reconnect
  attempts do not overlap. When the client of the listening server emits
  \<^verbatim>\<open>error\<close> twice, the second \<^verbatim>\<open>reconnectPg\<close> calls the setup while the
  setup of the first is still waiting for its \<^verbatim>\<open>connect()\<close>, and the call is
  not a no-op: both setups run to their end on the client that is current by then. That
  client has every channel registered twice and two notification listeners, and one
  notification it emits is broadcast twice.
\<close>

theorem overlapping_setups_duplicate_delivery:
  "tasks (run sample_rt listening_state [PgError 0, PgError 0, Settle 0 True]) =
     [ReconnectEnd 0, SetupConnect 1]
   \<and> tasks (run sample_rt listening_state [PgError 0, PgError 0, Settle 0 True, Settle 0 True]) =
       [SetupConnect 1, SetupConnect 2]
   \<and> listening (clients double_error_state ! 2) =
       [''conversion_message_changes'', ''conversion_message_changes'',
        ''conversion_changes'', ''conversion_changes'',
        ''conversion_step_changes'', ''conversion_step_changes'',
        ''test_channel'', ''test_channel'']
   \<and> notification_listeners (clients double_error_state ! 2) = 2
   \<and> emitted double_error_state = []
   \<and> map target (emitted (step sample_rt double_error_state (PgNotify 2 msg_conversion_update))) =
       [Room ''conversions'', Room ''conversions'']"
  by (simp add: double_error_state_eq listening_state_eq run_def lifecycle_defs new_Client_def
        eval_nat_numeral pipeline_defs sample_defs msg_conversion_update_def)

subsection \<open>Errors and retries\<close>

text \<open>
  C7, as the code has it. On an \<^verbatim>\<open>error\<close> event each error listener of the client
  starts a reconnect attempt at once: the step sets no timer and suspends on
  \<^verbatim>\<open>end()\<close>. An attempt that fails (its \<^verbatim>\<open>end()\<close>, its
  \<^verbatim>\<open>connect()\<close> or one of its \<^verbatim>\<open>LISTEN\<close> queries rejects) sets one
  timer of 5000 ms; no step ever sets a timer with another delay; and a retry that fails
  again, any number of times in a row, leaves exactly the one timer of 5000 ms behind.
\<close>

theorem retry_policy:
  "(c < length (clients st) \<longrightarrow>
      timers (step rt st (PgError c)) = timers st
      \<and> tasks (step rt st (PgError c)) =
          tasks st @ replicate (error_listeners (clients st ! c)) (ReconnectEnd (pgClient st)))
   \<and> timers (resume (ReconnectEnd c) False st) = timers st @ [(5000, ReconnectCb)]
   \<and> timers (resume (SetupConnect c) False st) = timers st @ [(5000, SetupCb)]
   \<and> timers (resume (SetupListen ch rest c) False st) = timers st @ [(5000, SetupCb)]
   \<and> set (timers (step rt st ev)) \<subseteq> set (timers st) \<union> {(5000, SetupCb), (5000, ReconnectCb)}
   \<and> (tasks st = [] \<and> timers st = [(5000, cb)] \<longrightarrow>
        tasks (run rt st (concat (replicate n [TimerFire 0, Settle 0 False]))) = []
        \<and> timers (run rt st (concat (replicate n [TimerFire 0, Settle 0 False]))) = [(5000, cb)])"
proof -
  have 1: "c < length (clients st) \<longrightarrow>
      timers (step rt st (PgError c)) = timers st
      \<and> tasks (step rt st (PgError c)) =
          tasks st @ replicate (error_listeners (clients st ! c)) (ReconnectEnd (pgClient st))"
    using PgError_starts_attempt_at_once by blast
  have 2: "tasks st = [] \<and> timers st = [(5000, cb)] \<longrightarrow>
        tasks (run rt st (concat (replicate n [TimerFire 0, Settle 0 False]))) = []
        \<and> timers (run rt st (concat (replicate n [TimerFire 0, Settle 0 False]))) = [(5000, cb)]"
    using retry_chain by blast
  show ?thesis
    by (intro conjI 1 2 failed_attempt_timer every_timer_5000)
qed

theorem retry_policy_witness:
  "0 < length (clients listening_state)
   \<and> timers (step sample_rt listening_state (PgError 0)) = []
   \<and> tasks (step sample_rt listening_state (PgError 0)) = [ReconnectEnd 0]
   \<and> tasks retry_pending_state = [] \<and> timers retry_pending_state = [(5000, ReconnectCb)]
   \<and> timers (run sample_rt retry_pending_state
        [TimerFire 0, Settle 0 False, TimerFire 0, Settle 0 False, TimerFire 0, Settle 0 False]) =
       [(5000, ReconnectCb)]"
proof -
  have a: "0 < length (clients listening_state)" "timers listening_state = []"
    "tasks listening_state = []" "error_listeners (clients listening_state ! 0) = 1"
    "pgClient listening_state = 0"
    by (simp_all add: listening_state_eq)
  have b: "tasks retry_pending_state = [] \<and> timers retry_pending_state = [(5000, ReconnectCb)]"
    by (simp add: retry_pending_state_eq)
  have n: "concat (replicate 3 [TimerFire 0, Settle 0 False]) =
      [TimerFire 0, Settle 0 False, TimerFire 0, Settle 0 False, TimerFire 0, Settle 0 False]"
    by (simp add: eval_nat_numeral)
  from retry_policy [where c = 0 and st = listening_state and rt = sample_rt] a
  have 1: "timers (step sample_rt listening_state (PgError 0)) = []
      \<and> tasks (step sample_rt listening_state (PgError 0)) = [ReconnectEnd 0]"
    by simp
  from retry_policy [where st = retry_pending_state and rt = sample_rt and cb = ReconnectCb and n = 3] b
  have "timers (run sample_rt retry_pending_state
          (concat (replicate 3 [TimerFire 0, Settle 0 False]))) = [(5000, ReconnectCb)]"
    by blast
  with a 1 b n show ?thesis by simp
qed

text \<open>
  The claim as written fails on the listening server: the attempt that follows an error
  is not delayed by 5 seconds. The step that handles the error sets no timer, and the
  attempt is already suspended on \<^verbatim>\<open>end()\<close> when the step is over.
\<close>

theorem immediate_reconnect_counterexample:
  "tasks listening_state = [] \<and> timers listening_state = []
   \<and> tasks (step sample_rt listening_state (PgError 0)) = [ReconnectEnd 0]
   \<and> timers (step sample_rt listening_state (PgError 0)) = []"
  by (simp add: listening_state_eq lifecycle_defs)

subsection \<open>Shutdown\<close>

text \<open>
  C8, as the code has it. From any state, \<^verbatim>\<open>close()\<close> followed by the settling of
  the \<^verbatim>\<open>end()\<close> it awaits leaves the pending timers and the other suspended calls
  as they were. When \<^verbatim>\<open>end()\<close> resolves, the current client is released and the
  HTTP server closed; when it rejects, the error is caught and logged and nothing else
  changes: nothing is thrown in either case.
\<close>

theorem close_releases_and_cancels_nothing:
  "(let st' = run rt st [Close, Settle (length (tasks st)) ok]
    in timers st' = timers st \<and> tasks st' = tasks st \<and> emitted st' = emitted st
     \<and> pgClient st' = pgClient st
     \<and> (ok \<longrightarrow> httpClosed st'
            \<and> clients st' = (clients st)[pgClient st := (clients st ! pgClient st)\<lparr>ended := True\<rparr>]
            \<and> console st' = console st @ [LogShuttingDown, LogShutdownComplete])
     \<and> (\<not> ok \<longrightarrow> httpClosed st' = httpClosed st
            \<and> clients st' = clients st
            \<and> console st' = console st @ [LogShuttingDown, ErrShutdown]))"
  by (simp add: run_def lifecycle_defs Let_def)

theorem close_releases_and_cancels_nothing_witness:
  "httpClosed (run sample_rt retry_pending_state [Close, Settle 0 True])
   \<and> ended (clients (run sample_rt retry_pending_state [Close, Settle 0 True]) ! 0)
   \<and> timers (run sample_rt retry_pending_state [Close, Settle 0 True]) = [(5000, ReconnectCb)]
   \<and> console (run sample_rt retry_pending_state [Close, Settle 0 False]) =
       [LogConnected, ErrClientError, LogReconnecting, ErrReconnectFailed,
        LogShuttingDown, ErrShutdown]"
proof -
  have t: "length (tasks retry_pending_state) = 0" "pgClient retry_pending_state = 0"
    by (simp_all add: retry_pending_state_eq)
  from close_releases_and_cancels_nothing [of sample_rt retry_pending_state True] t
  have 1: "httpClosed (run sample_rt retry_pending_state [Close, Settle 0 True])
    \<and> clients (run sample_rt retry_pending_state [Close, Settle 0 True]) =
        (clients retry_pending_state)[0 := (clients retry_pending_state ! 0)\<lparr>ended := True\<rparr>]
    \<and> timers (run sample_rt retry_pending_state [Close, Settle 0 True]) =
        timers retry_pending_state"
    by (simp add: Let_def)
  from close_releases_and_cancels_nothing [of sample_rt retry_pending_state False] t
  have 2: "console (run sample_rt retry_pending_state [Close, Settle 0 False]) =
      console retry_pending_state @ [LogShuttingDown, ErrShutdown]"
    by (simp add: Let_def)
  from 1 2 show ?thesis by (simp add: retry_pending_state_eq)
qed

text \<open>
  The claim as written fails where a retry timer is pending: \<^verbatim>\<open>close()\<close> leaves it
  in place, it fires while \<^verbatim>\<open>close\<close> is still waiting, the retry runs, and when
  the shutdown is complete a new connection is open that nothing releases.
\<close>

theorem timer_survives_close_counterexample:
  "timers retry_pending_state = [(5000, ReconnectCb)]
   \<and> timers (run sample_rt retry_pending_state [Close]) = [(5000, ReconnectCb)]
   \<and> tasks (run sample_rt retry_pending_state [Close, TimerFire 0]) =
       [CloseEnd 0, ReconnectEnd 0]
   \<and> httpClosed after_shutdown_state
   \<and> pgClient after_shutdown_state = 1
   \<and> live (clients after_shutdown_state ! 1)
   \<and> live_count after_shutdown_state = 1"
  by (simp add: retry_pending_state_eq after_shutdown_state_eq run_def lifecycle_defs
        live_def live_count_def)

subsection \<open>One connection at a time\<close>

text \<open>
  What \<^verbatim>\<open>reconnectPg\<close> does achieve. A client object is created only when the
  \<^verbatim>\<open>end()\<close> awaited by a \<^verbatim>\<open>reconnectPg\<close> call has resolved: the
  client that call was waiting on is released, and the new client becomes the current
  one. In every run from the constructor in which no such \<^verbatim>\<open>end()\<close> resolves
  while another call is suspended, at most one connection is live.
\<close>

lemma single_connection_without_overlap:
  "(length (clients (step rt st ev)) \<noteq> length (clients st) \<longrightarrow>
      (\<exists>i c. ev = Settle i True \<and> i < length (tasks st) \<and> tasks st ! i = ReconnectEnd c
         \<and> clients (step rt st ev) =
             (clients st)[c := (clients st ! c)\<lparr>ended := True\<rparr>] @ [new_Client]
         \<and> pgClient (step rt st ev) = length (clients st)))
   \<and> (calm rt (construct ()) evs \<longrightarrow> live_count (run rt (construct ()) evs) \<le> 1)"
  using step_new_client [of rt st ev] on_current_run [OF on_current_construct, of rt evs]
    live_count_le_1 [of "run rt (construct ()) evs"]
  by blast

lemma single_connection_without_overlap_example:
  "calm sample_rt (construct ())
     [Settle 0 True, Settle 0 True, Settle 0 True, Settle 0 True, Settle 0 True,
      PgError 0, Settle 0 True, Settle 0 True]
   \<and> live_count (run sample_rt (construct ())
       [Settle 0 True, Settle 0 True, Settle 0 True, Settle 0 True, Settle 0 True,
        PgError 0, Settle 0 True, Settle 0 True]) \<le> 1
   \<and> length (clients (step sample_rt (step sample_rt listening_state (PgError 0)) (Settle 0 True)))
       \<noteq> length (clients (step sample_rt listening_state (PgError 0)))
   \<and> ended (clients (step sample_rt (step sample_rt listening_state (PgError 0)) (Settle 0 True)) ! 0)
   \<and> pgClient (step sample_rt (step sample_rt listening_state (PgError 0)) (Settle 0 True)) = 1"
proof -
  let ?evs = "[Settle 0 True, Settle 0 True, Settle 0 True, Settle 0 True, Settle 0 True,
      PgError 0, Settle 0 True, Settle 0 True]"
  define st :: "int server" where "st = step sample_rt listening_state (PgError 0)"
  have st: "st = listening_state
      \<lparr>tasks := [ReconnectEnd 0],
       console := [LogConnected, ErrClientError, LogReconnecting]\<rparr>"
    unfolding st_def by (simp add: listening_state_eq lifecycle_defs)
  have calm: "calm sample_rt (construct ()) ?evs"
    by (simp add: construct_def lifecycle_defs new_Client_def)
  have len: "length (clients (step sample_rt st (Settle 0 True))) \<noteq> length (clients st)"
    by (simp add: st listening_state_eq lifecycle_defs)
  note th = single_connection_without_overlap
    [where rt = sample_rt and st = st and ev = "Settle 0 True" and evs = ?evs]
  have 1: "live_count (run sample_rt (construct ()) ?evs) \<le> 1"
    using th [THEN conjunct2, THEN mp, OF calm] .
  obtain i c where ic: "Settle 0 True = Settle i True" "tasks st ! i = ReconnectEnd c"
    "clients (step sample_rt st (Settle 0 True)) =
       (clients st)[c := (clients st ! c)\<lparr>ended := True\<rparr>] @ [new_Client]"
    "pgClient (step sample_rt st (Settle 0 True)) = length (clients st)"
    using th [THEN conjunct1, THEN mp, OF len] by blast
  from ic(1) have i: "i = 0" by simp
  have t0: "tasks st ! 0 = ReconnectEnd 0" by (simp add: st)
  from ic(2) i t0 have c: "c = 0" by simp
  have cl: "clients st = clients listening_state" by (simp add: st)
  have 2: "ended (clients (step sample_rt st (Settle 0 True)) ! 0)"
    unfolding ic(3) c cl by (simp add: listening_state_eq)
  have 3: "pgClient (step sample_rt st (Settle 0 True)) = 1"
    unfolding ic(4) cl by (simp add: listening_state_eq)
  show ?thesis
    using calm 1 len 2 3 unfolding st_def by (intro conjI)
qed

text \<open>
  A second attempt that starts while the first is in flight is the case
  \<^verbatim>\<open>reconnectPg\<close> misses. Two \<^verbatim>\<open>error\<close> events whose attempts both
  fail leave two timers pending.
\<close>

lemma overlapping_failures_two_timers:
  "timers double_failure_state = [(5000, ReconnectCb), (5000, ReconnectCb)]"
  by (simp add: double_failure_state_eq)

text \<open>
  C9 does not hold of the code. When the client of the listening server emits
  \<^verbatim>\<open>error\<close> twice, both attempts await \<^verbatim>\<open>end()\<close> on the old client
  and each then creates and connects a client of its own. Two connections are live: the
  first new client listens to nothing, is no longer the current one and is never
  released; the second has every channel and both listeners twice.
\<close>

theorem overlapping_reconnects_two_live_connections:
  "pgClient double_error_state = 2
   \<and> live (clients double_error_state ! 1)
   \<and> live (clients double_error_state ! 2)
   \<and> listening (clients double_error_state ! 1) = []
   \<and> \<not> ended (clients double_error_state ! 1)
   \<and> notification_listeners (clients double_error_state ! 2) = 2
   \<and> live_count double_error_state = 2"
  by (simp add: double_error_state_eq live_def live_count_def)

end
